theory Spec2Isabelle
  imports Complex_Main
begin

section \<open>SYNAPSE hardware-software balancing algorithm\<close>

text \<open>
  A shallow embedding of \<^verbatim>\<open>src/algorithms/balancing_algorithm.hpp\<close>.

  Conventions of the embedding:
  \<^item> a C++ \<^verbatim>\<open>double\<close> is a \<^typ>\<open>real\<close>, and there is no NaN. Arithmetic is exact,
    with one exception: where the value of a \<^verbatim>\<open>double\<close> operation is converted to an
    integer (the product in \<^verbatim>\<open>predictIDI\<close>), the conversion discards a fraction and
    the rounding of the operation can change the integer, so that operation is
    rounded to binary64 as IEEE 754 does, and an infinite result is \<open>None\<close>;
  \<^item> a C++ \<^verbatim>\<open>int\<close> is an \<^typ>\<open>int\<close> between \<open>INT_MIN\<close> and \<open>INT_MAX\<close> (32 bits);
    signed overflow and an out-of-range conversion from \<^verbatim>\<open>double\<close> are undefined
    behaviour in C++, and a function that can reach one returns \<open>None\<close> there;
  \<^item> a \<^verbatim>\<open>std::chrono::system_clock::time_point\<close> is the number of clock ticks since
    the epoch, an \<^typ>\<open>int\<close>; every call of \<^verbatim>\<open>system_clock::now()\<close> is an explicit
    argument of the function that makes it;
  \<^item> a field or an enumerator whose name two types share (\<open>component_id\<close>,
    \<open>timestamp\<close>, \<open>imbalance\<close>, \<open>QUARANTINE\<close>) is written with its type's name in
    front, as C++ writes \<^verbatim>\<open>SeverityLevel::QUARANTINE\<close>;
  \<^item> a private member \<^verbatim>\<open>x_\<close> is the field \<open>x\<close> (a name cannot end in an underscore
    here);
  \<^item> a \<^verbatim>\<open>std::deque\<close> is a list, front first; \<^verbatim>\<open>std::optional\<close> is \<open>option\<close>;
  \<^item> a member function that mutates its object returns the new object next to its
    result; the mutex of the balancer is left out (one caller at a time).
\<close>

subsection \<open>Constants and thresholds\<close>

definition IDI_HEALTHY :: real where "IDI_HEALTHY = 3.0"
definition IDI_WARNING :: real where "IDI_WARNING = 5.0"
definition IDI_CRITICAL :: real where "IDI_CRITICAL = 7.0"
definition IDI_QUARANTINE :: real where "IDI_QUARANTINE = 10.0"

definition CPU_WARNING :: real where "CPU_WARNING = 70.0"
definition CPU_CRITICAL :: real where "CPU_CRITICAL = 85.0"
definition CPU_EMERGENCY :: real where "CPU_EMERGENCY = 95.0"

definition MEMORY_WARNING :: real where "MEMORY_WARNING = 75.0"
definition MEMORY_CRITICAL :: real where "MEMORY_CRITICAL = 90.0"

definition TEMPERATURE_WARNING :: real where "TEMPERATURE_WARNING = 70.0"
definition TEMPERATURE_CRITICAL :: real where "TEMPERATURE_CRITICAL = 85.0"
definition TEMPERATURE_SHUTDOWN :: real where "TEMPERATURE_SHUTDOWN = 95.0"

definition HW_SW_IMBALANCE_THRESHOLD :: real where "HW_SW_IMBALANCE_THRESHOLD = 0.3"
definition LATENCY_WARNING_MS :: real where "LATENCY_WARNING_MS = 100.0"
definition LATENCY_CRITICAL_MS :: real where "LATENCY_CRITICAL_MS = 500.0"

subsection \<open>Enums and data structures\<close>

datatype SeverityLevel = HEALTHY | WARNING | CRITICAL | QUARANTINE

datatype MitigationAction =
  NONE | THROTTLE | BRAKE | QUARANTINE | REBALANCE | ALERT | AUTO_INTEGRATE

datatype ComponentType = HARDWARE | SOFTWARE | FIRMWARE | HYBRID

type_synonym time_point = int

record TelemetryData =
  component_id :: string
  timestamp :: time_point
  cpu_usage :: real
  memory_usage :: real
  io_latency_ms :: real
  network_latency_ms :: real
  error_rate :: real
  throughput :: real
  temperature :: "real option"
  power_consumption :: "real option"

record MitigationResult =
  action :: MitigationAction
  component_id :: string
  reason :: string
  timestamp :: time_point
  idi_score :: real
  throttle_level :: real
  imbalance :: real

record BalanceMetrics =
  hw_capacity :: real
  sw_demand :: real
  imbalance :: real
  timestamp :: time_point

subsection \<open>The standard library functions the code calls\<close>

text \<open>
  \<^verbatim>\<open>std::min(a, b)\<close> is \<^verbatim>\<open>(b < a) ? b : a\<close> and \<^verbatim>\<open>std::max(a, b)\<close> is
  \<^verbatim>\<open>(a < b) ? b : a\<close>; \<^verbatim>\<open>std::clamp(v, lo, hi)\<close> is
  \<^verbatim>\<open>(v < lo) ? lo : (hi < v) ? hi : v\<close>.
\<close>

definition std_min :: "'a::linorder \<Rightarrow> 'a \<Rightarrow> 'a" where
  "std_min a b = (if b < a then b else a)"

definition std_max :: "'a::linorder \<Rightarrow> 'a \<Rightarrow> 'a" where
  "std_max a b = (if a < b then b else a)"

definition std_clamp :: "real \<Rightarrow> real \<Rightarrow> real \<Rightarrow> real" where
  "std_clamp v lo hi = (if v < lo then lo else if hi < v then hi else v)"

definition INT_MIN :: int where "INT_MIN = - 2147483648"
definition INT_MAX :: int where "INT_MAX = 2147483647"

definition in_int_range :: "int \<Rightarrow> bool" where
  "in_int_range i = (INT_MIN \<le> i \<and> i \<le> INT_MAX)"

text \<open>\<^verbatim>\<open>a + b\<close> on \<^verbatim>\<open>int\<close>: undefined when the sum leaves the range.\<close>

definition int_add :: "int \<Rightarrow> int \<Rightarrow> int option" where
  "int_add a b = (if in_int_range (a + b) then Some (a + b) else None)"

text \<open>
  \<^verbatim>\<open>static_cast<int>(x)\<close> on a \<^verbatim>\<open>double\<close>: the fractional part is discarded
  (truncation towards zero); undefined when the truncated value leaves the range.
\<close>

definition trunc_toward_zero :: "real \<Rightarrow> int" where
  "trunc_toward_zero x = (if x < 0 then \<lceil>x\<rceil> else \<lfloor>x\<rfloor>)"

definition static_cast_int :: "real \<Rightarrow> int option" where
  "static_cast_int x =
     (if in_int_range (trunc_toward_zero x) then Some (trunc_toward_zero x) else None)"

text \<open>
  Values of type \<^verbatim>\<open>double\<close> where they decide an integer: IEEE 754 binary64 with the
  default rounding, round to nearest, ties to even. A finite \<^verbatim>\<open>double\<close> is an integer
  of magnitude at most \<open>2 ^ 53\<close> times a power of two between \<open>2 ^ (- 1074)\<close> and
  \<open>2 ^ 971\<close>. \<open>to_double\<close> gives the \<^verbatim>\<open>double\<close> nearest to a real; where the
  magnitude of that would be \<open>2 ^ 1024\<close> or more the \<^verbatim>\<open>double\<close> is an infinity, and
  \<open>to_double\<close> is \<open>None\<close>. The product of two \<^verbatim>\<open>double\<close>s is the \<^verbatim>\<open>double\<close>
  nearest to the exact product.
\<close>

text \<open>\<open>ilog2 n\<close> is the position of the leading bit of a positive integer.\<close>

function ilog2 :: "int \<Rightarrow> int" where
  "ilog2 n = (if n \<le> 1 then 0 else 1 + ilog2 (n div 2))"
  by pat_completeness auto
termination
  by (relation "measure nat") auto

definition pow2 :: "int \<Rightarrow> real" where
  "pow2 k = (if 0 \<le> k then 2 ^ nat k else 1 / 2 ^ nat (- k))"

text \<open>The exponent \<open>e\<close> of a real other than zero: \<open>2 ^ e \<le> \<bar>x\<bar> < 2 ^ (e + 1)\<close>.\<close>

definition binary_exponent :: "real \<Rightarrow> int" where
  "binary_exponent x =
     (if 1 \<le> \<bar>x\<bar> then ilog2 \<lfloor>\<bar>x\<bar>\<rfloor> else - (ilog2 (\<lceil>1 / \<bar>x\<bar>\<rceil> - 1) + 1))"

definition round_half_even :: "real \<Rightarrow> int" where
  "round_half_even y =
     (let r = \<lfloor>y\<rfloor>; f = y - real_of_int r
      in if f < 1 / 2 then r else if 1 / 2 < f then r + 1
         else if even r then r else r + 1)"

text \<open>
  Rounding to 53 significant bits; below \<open>2 ^ (- 1022)\<close> the spacing stays at
  \<open>2 ^ (- 1074)\<close> (the subnormal numbers).
\<close>

definition round_to_double :: "real \<Rightarrow> real" where
  "round_to_double x =
     (if x = 0 then 0
      else let q = max (binary_exponent x - 52) (- 1074)
           in real_of_int (round_half_even (x / pow2 q)) * pow2 q)"

definition to_double :: "real \<Rightarrow> real option" where
  "to_double x =
     (let r = round_to_double x in if \<bar>r\<bar> < 2 ^ 1024 then Some r else None)"

definition double_mul :: "real \<Rightarrow> real \<Rightarrow> real option" where
  "double_mul a b = to_double (a * b)"

subsection \<open>IDI calculator\<close>

definition IDICalculator_calculate :: "int \<Rightarrow> int \<Rightarrow> int \<Rightarrow> real" where
  "IDICalculator_calculate days loc_changed dependencies =
     (let d = real_of_int (std_max days 0);
          l = real_of_int (std_max loc_changed 0) / 1000.0;
          dep = real_of_int (std_max dependencies 1) / 10.0
      in d * l * dep)"

definition getSeverity :: "real \<Rightarrow> SeverityLevel" where
  "getSeverity idi =
     (if idi < IDI_HEALTHY then HEALTHY
      else if idi < IDI_WARNING then WARNING
      else if idi < IDI_QUARANTINE then CRITICAL
      else SeverityLevel.QUARANTINE)"

text \<open>
  The argument \<^verbatim>\<open>daily_loc_rate\<close> is a \<^verbatim>\<open>double\<close>: a real passed for it stands for the
  \<^verbatim>\<open>double\<close> nearest to it (a \<^verbatim>\<open>double\<close> stands for itself). With an infinite rate
  the product is an infinity or a NaN, and the conversion to \<^verbatim>\<open>int\<close> is undefined.
\<close>

definition predictIDI :: "int \<Rightarrow> int \<Rightarrow> int \<Rightarrow> int \<Rightarrow> real \<Rightarrow> real option" where
  "predictIDI current_days current_loc dependencies days_ahead daily_loc_rate =
     (case to_double daily_loc_rate of
        None \<Rightarrow> None
      | Some rate \<Rightarrow>
     (case int_add current_days days_ahead of
        None \<Rightarrow> None
      | Some future_days \<Rightarrow>
          (case double_mul rate (real_of_int days_ahead) of
             None \<Rightarrow> None
           | Some product \<Rightarrow>
               (case static_cast_int product of
                  None \<Rightarrow> None
                | Some extra \<Rightarrow>
                    (case int_add current_loc extra of
                       None \<Rightarrow> None
                     | Some future_loc \<Rightarrow>
                         Some (IDICalculator_calculate future_days future_loc
                                 dependencies))))))"

subsection \<open>Combined throttle calculator\<close>

definition CombinedThrottleCalculator_calculate :: "real \<Rightarrow> real \<Rightarrow> bool \<Rightarrow> real" where
  "CombinedThrottleCalculator_calculate idi_throttle balance_throttle is_quarantined =
     (if is_quarantined then 0.0
      else let min_throttle = std_min idi_throttle balance_throttle in min_throttle)"

subsection \<open>PID controller\<close>

record PIDController =
  kp :: real
  ki :: real
  kd :: real
  integral :: real
  previous_error :: real
  target :: real

definition INTEGRAL_MIN :: real where "INTEGRAL_MIN = - 50.0"
definition INTEGRAL_MAX :: real where "INTEGRAL_MAX = 50.0"

text \<open>The constructor, and the object its default arguments give.\<close>

definition PIDController_new :: "real \<Rightarrow> real \<Rightarrow> real \<Rightarrow> real \<Rightarrow> PIDController" where
  "PIDController_new kp' ki' kd' target' =
     \<lparr>kp = kp', ki = ki', kd = kd', integral = 0.0, previous_error = 0.0, target = target'\<rparr>"

definition PIDController_default :: PIDController where
  "PIDController_default = PIDController_new 0.5 0.1 0.05 70.0"

definition setTarget :: "PIDController \<Rightarrow> real \<Rightarrow> PIDController" where
  "setTarget c target' = c\<lparr>target := target'\<rparr>"

definition reset :: "PIDController \<Rightarrow> PIDController" where
  "reset c = c\<lparr>integral := 0.0, previous_error := 0.0\<rparr>"

text \<open>\<^verbatim>\<open>calculate\<close> returns the adjustment and the controller it leaves behind.\<close>

definition PIDController_calculate :: "PIDController \<Rightarrow> real \<Rightarrow> real \<times> PIDController" where
  "PIDController_calculate c current_value =
     (let err = target c - current_value;
          p_term = kp c * err;
          integral' = std_clamp (integral c + err) INTEGRAL_MIN INTEGRAL_MAX;
          i_term = ki c * integral';
          d_term = kd c * (err - previous_error c);
          adjustment = (p_term + i_term + d_term) / 100.0
      in (std_clamp adjustment (- 0.3) 0.3,
          c\<lparr>integral := integral', previous_error := err\<rparr>))"

text \<open>\<open>n\<close> consecutive calls of \<^verbatim>\<open>calculate\<close> with the same current value.\<close>

fun calculate_repeatedly :: "nat \<Rightarrow> PIDController \<Rightarrow> real \<Rightarrow> PIDController" where
  "calculate_repeatedly 0 c current_value = c"
| "calculate_repeatedly (Suc n) c current_value =
     calculate_repeatedly n (snd (PIDController_calculate c current_value)) current_value"

subsection \<open>Hardware-software balancer\<close>

record HardwareSoftwareBalancer =
  history :: "BalanceMetrics list"
  target_throughput :: real

definition moving_avg_window :: nat where "moving_avg_window = 10"

definition HardwareSoftwareBalancer_new :: "real \<Rightarrow> HardwareSoftwareBalancer" where
  "HardwareSoftwareBalancer_new target_throughput' =
     \<lparr>history = [], target_throughput = target_throughput'\<rparr>"

definition calculateHardwareCapacity :: "TelemetryData \<Rightarrow> real" where
  "calculateHardwareCapacity telemetry =
     (let cpu_capacity = 100.0 - cpu_usage telemetry;
          memory_capacity = 100.0 - memory_usage telemetry;
          temp_factor =
            (case temperature telemetry of
               None \<Rightarrow> 1.0
             | Some temp \<Rightarrow>
                 if temp > TEMPERATURE_CRITICAL then 0.3
                 else if temp > TEMPERATURE_WARNING then 0.7
                 else 1.0)
      in (cpu_capacity * 0.4) + (memory_capacity * 0.4) + (100.0 * temp_factor * 0.2))"

text \<open>
  The quotient \<^verbatim>\<open>throughput / target_throughput\<close> is the real quotient; with a target
  of zero the C++ gives an infinity or a NaN, which the reals do not have.
\<close>

definition calculateSoftwareDemand :: "HardwareSoftwareBalancer \<Rightarrow> TelemetryData \<Rightarrow> real" where
  "calculateSoftwareDemand b telemetry =
     (let throughput_demand =
            std_min ((throughput telemetry / target_throughput b) * 100.0) 100.0;
          latency_urgency =
            (if io_latency_ms telemetry > LATENCY_CRITICAL_MS then 100.0
             else if io_latency_ms telemetry > LATENCY_WARNING_MS then 70.0
             else (io_latency_ms telemetry / LATENCY_WARNING_MS) * 50.0);
          error_stress = std_min (error_rate telemetry * 1000.0) 100.0
      in (throughput_demand * 0.5) + (latency_urgency * 0.3) + (error_stress * 0.2))"

definition calculateImbalance :: "real \<Rightarrow> real \<Rightarrow> real" where
  "calculateImbalance hw sw =
     (if hw + sw = 0.0 then 0.0 else (hw - sw) / 100.0)"

definition getBalancingAction :: "real \<Rightarrow> string \<Rightarrow> real \<Rightarrow> time_point \<Rightarrow> MitigationResult" where
  "getBalancingAction imb cid current_throttle now =
     (let threshold = HW_SW_IMBALANCE_THRESHOLD in
      if \<bar>imb\<bar> < threshold then
        \<lparr>action = NONE, component_id = cid, reason = ''System is balanced'',
         timestamp = now, idi_score = 0.0, throttle_level = current_throttle,
         imbalance = imb\<rparr>
      else if imb < - threshold then
        (let throttle_amount = std_min \<bar>imb\<bar> 0.5;
             new_throttle = std_max (current_throttle - throttle_amount) 0.2
         in \<lparr>action = THROTTLE, component_id = cid,
             reason = ''Hardware overloaded - throttling software'',
             timestamp = now, idi_score = 0.0, throttle_level = new_throttle,
             imbalance = imb\<rparr>)
      else
        (let boost_potential = std_min imb 0.3
         in \<lparr>action = ALERT, component_id = cid,
             reason = ''Hardware underutilized - boost potential available'',
             timestamp = now, idi_score = 0.0,
             throttle_level = std_min (current_throttle + boost_potential) 1.0,
             imbalance = imb\<rparr>))"

text \<open>
  The loop \<^verbatim>\<open>while (history_.size() > moving_avg_window_ * 2) history_.pop_front();\<close>
\<close>

function bound_history :: "BalanceMetrics list \<Rightarrow> BalanceMetrics list" where
  "bound_history h =
     (if length h > moving_avg_window * 2 then bound_history (tl h) else h)"
  by pat_completeness auto
termination
  by (relation "measure length") auto

text \<open>
  The loop that sums the imbalance of the last \<^verbatim>\<open>moving_avg_window_\<close> entries: the
  iterator starts \<^verbatim>\<open>moving_avg_window_\<close> places before the end and runs to the end.
\<close>

definition sum_recent :: "BalanceMetrics list \<Rightarrow> real" where
  "sum_recent h =
     foldl (\<lambda>sum m. sum + BalanceMetrics.imbalance m) 0.0
       (drop (length h - moving_avg_window) h)"

text \<open>
  \<^verbatim>\<open>balance\<close> reads the clock twice: \<open>now_sample\<close> stamps the history entry,
  \<open>now_result\<close> the result. It returns the result and the balancer it leaves behind.
\<close>

definition balance ::
  "HardwareSoftwareBalancer \<Rightarrow> TelemetryData \<Rightarrow> real \<Rightarrow> time_point \<Rightarrow> time_point
     \<Rightarrow> MitigationResult \<times> HardwareSoftwareBalancer" where
  "balance b telemetry current_throttle now_sample now_result =
     (let hw = calculateHardwareCapacity telemetry;
          sw = calculateSoftwareDemand b telemetry;
          imb = calculateImbalance hw sw;
          pushed = history b @
            [\<lparr>hw_capacity = hw, sw_demand = sw, imbalance = imb, timestamp = now_sample\<rparr>];
          history' = bound_history pushed;
          avg_imbalance =
            (if length history' \<ge> moving_avg_window
             then sum_recent history' / real moving_avg_window
             else imb)
      in (getBalancingAction avg_imbalance (TelemetryData.component_id telemetry)
            current_throttle now_result,
          b\<lparr>history := history'\<rparr>))"

definition getRecentMetrics :: "HardwareSoftwareBalancer \<Rightarrow> nat \<Rightarrow> BalanceMetrics list" where
  "getRecentMetrics b count =
     (if length (history b) > count then drop (length (history b) - count) (history b)
      else history b)"

subsection \<open>IDI brake\<close>

definition calculateThrottleLevel :: "real \<Rightarrow> real" where
  "calculateThrottleLevel idi =
     (if idi < IDI_HEALTHY then 1.0
      else if idi < IDI_WARNING then
        (let ratio = (idi - IDI_HEALTHY) / (IDI_WARNING - IDI_HEALTHY)
         in 1.0 - (ratio * 0.3))
      else if idi < IDI_CRITICAL then
        (let ratio = (idi - IDI_WARNING) / (IDI_CRITICAL - IDI_WARNING)
         in 0.7 - (ratio * 0.4))
      else if idi < IDI_QUARANTINE then
        (let ratio = (idi - IDI_CRITICAL) / (IDI_QUARANTINE - IDI_CRITICAL)
         in 0.3 - (ratio * 0.2))
      else 0.0)"

definition applyBrake ::
  "string \<Rightarrow> real \<Rightarrow> int \<Rightarrow> int \<Rightarrow> int \<Rightarrow> time_point \<Rightarrow> MitigationResult" where
  "applyBrake cid idi days_since_integration loc_changed dependencies now =
     (let severity = getSeverity idi;
          throttle = calculateThrottleLevel idi;
          result = \<lparr>action = NONE, component_id = cid, reason = [],
                    timestamp = now, idi_score = idi, throttle_level = throttle,
                    imbalance = 0.0\<rparr>
      in case severity of
           SeverityLevel.QUARANTINE \<Rightarrow>
             result\<lparr>action := MitigationAction.QUARANTINE,
               reason := ''IDI exceeded quarantine threshold - component isolated''\<rparr>
         | CRITICAL \<Rightarrow>
             result\<lparr>action := BRAKE,
               reason := ''IDI in critical zone - hard brake applied''\<rparr>
         | WARNING \<Rightarrow>
             result\<lparr>action := THROTTLE,
               reason := ''IDI in warning zone - soft throttle applied''\<rparr>
         | HEALTHY \<Rightarrow>
             result\<lparr>action := NONE,
               reason := ''IDI healthy - no mitigation needed''\<rparr>)"

subsection \<open>Neural pruning\<close>

definition shouldPrune :: "real \<Rightarrow> real \<Rightarrow> real \<Rightarrow> real option \<Rightarrow> bool" where
  "shouldPrune idi err_rate health_score temp =
     (if idi \<ge> IDI_QUARANTINE then True
      else if err_rate \<ge> 0.05 then True
      else if (case temp of None \<Rightarrow> False | Some t \<Rightarrow> t \<ge> TEMPERATURE_SHUTDOWN) then True
      else if health_score < 20.0 then True
      else False)"

text \<open>
  \<^verbatim>\<open>std::chrono::duration_cast<std::chrono::hours>\<close> of a clock duration: the tick
  count divided by the ticks in an hour, the quotient truncated towards zero. The tick
  length of \<^verbatim>\<open>system_clock\<close> belongs to the standard library, not to this code, so
  the number of ticks in an hour is a parameter.
\<close>

definition duration_cast_hours :: "int \<Rightarrow> int \<Rightarrow> int" where
  "duration_cast_hours ticks_per_hour d = sgn d * (\<bar>d\<bar> div ticks_per_hour)"

definition canRestore :: "int \<Rightarrow> real \<Rightarrow> real \<Rightarrow> time_point \<Rightarrow> time_point \<Rightarrow> bool" where
  "canRestore ticks_per_hour idi health_score quarantined_at now =
     (if idi \<ge> IDI_WARNING then False
      else if health_score < 70.0 then False
      else let duration = duration_cast_hours ticks_per_hour (now - quarantined_at)
           in if duration < 1 then False else True)"

section \<open>Properties\<close>

lemmas Thresholds_defs =
  IDI_HEALTHY_def IDI_WARNING_def IDI_CRITICAL_def IDI_QUARANTINE_def
  TEMPERATURE_WARNING_def TEMPERATURE_CRITICAL_def TEMPERATURE_SHUTDOWN_def
  HW_SW_IMBALANCE_THRESHOLD_def LATENCY_WARNING_MS_def LATENCY_CRITICAL_MS_def

lemma std_min_eq_min: "std_min a b = min a b"
  by (auto simp: std_min_def min_def)

lemma std_max_eq_max: "std_max a b = max a b"
  by (auto simp: std_max_def max_def)


subsection \<open>Combined throttle\<close>

text \<open>
  C1. For every pair of throttle inputs and every quarantine flag, the combined throttle is
  0.0 when the component is quarantined and the smaller of the two throttles otherwise;
  in particular 0.8 and 0.3 combine to 0.3 when not quarantined and to 0.0 when
  quarantined.
\<close>

theorem combine_quarantine_or_min:
  "CombinedThrottleCalculator_calculate brake_throttle balance_throttle is_quarantined =
     (if is_quarantined then 0 else min brake_throttle balance_throttle)
   \<and> CombinedThrottleCalculator_calculate 0.8 0.3 False = 0.3
   \<and> CombinedThrottleCalculator_calculate 0.8 0.3 True = 0.0"
  by (simp add: CombinedThrottleCalculator_calculate_def std_min_eq_min)

theorem combine_quarantine_or_min_witness:
  "CombinedThrottleCalculator_calculate 0.5 0.9 False = 0.5
   \<and> CombinedThrottleCalculator_calculate 0.5 0.9 True = 0"
  using combine_quarantine_or_min [of "0.5" "0.9" False]
        combine_quarantine_or_min [of "0.5" "0.9" True]
  by simp

subsection \<open>Severity tiers\<close>

text \<open>
  C5. For every debt score, the severity is HEALTHY exactly when the score is below 3.0,
  WARNING exactly when it is in [3.0, 5.0), CRITICAL exactly when it is in [5.0, 10.0) and
  QUARANTINE exactly when it is 10.0 or more; the boundary values 2.999, 3.0, 4.999, 5.0,
  9.999 and 10.0 classify as HEALTHY, WARNING, WARNING, CRITICAL, CRITICAL and QUARANTINE.
  The constant 7.0 plays no role: the scores just below 7.0 and at 7.0 are both CRITICAL,
  and the four tiers above are told apart by 3.0, 5.0 and 10.0 alone.
\<close>

theorem getSeverity_tiers:
  "(getSeverity idi = HEALTHY \<longleftrightarrow> idi < 3.0)
   \<and> (getSeverity idi = WARNING \<longleftrightarrow> 3.0 \<le> idi \<and> idi < 5.0)
   \<and> (getSeverity idi = CRITICAL \<longleftrightarrow> 5.0 \<le> idi \<and> idi < 10.0)
   \<and> (getSeverity idi = SeverityLevel.QUARANTINE \<longleftrightarrow> idi \<ge> 10.0)
   \<and> getSeverity 2.999 = HEALTHY
   \<and> getSeverity 3.0 = WARNING
   \<and> getSeverity 4.999 = WARNING
   \<and> getSeverity 5.0 = CRITICAL
   \<and> getSeverity 9.999 = CRITICAL
   \<and> getSeverity 10.0 = SeverityLevel.QUARANTINE
   \<and> getSeverity 6.999 = CRITICAL
   \<and> getSeverity 7.0 = CRITICAL"
  by (simp add: getSeverity_def Thresholds_defs)

theorem getSeverity_tiers_witness:
  "getSeverity 7.5 = CRITICAL \<and> getSeverity 6.5 = CRITICAL"
  using getSeverity_tiers [of "7.5"] getSeverity_tiers [of "6.5"]
  by simp

subsection \<open>The balancing decision at the threshold\<close>

text \<open>
  C10. At a smoothed imbalance of exactly +0.3 or exactly -0.3 the balancing decision takes
  the ALERT branch: at +0.3 the throttle level is min(current_throttle + 0.3, 1.0), and at
  -0.3 it is min(current_throttle - 0.3, 1.0), a decrease that the 0.2 floor of the
  THROTTLE branch does not bound.
\<close>

theorem getBalancingAction_at_threshold:
  "action (getBalancingAction 0.3 cid current_throttle now) = ALERT
   \<and> throttle_level (getBalancingAction 0.3 cid current_throttle now)
       = min (current_throttle + 0.3) 1.0
   \<and> action (getBalancingAction (- 0.3) cid current_throttle now) = ALERT
   \<and> throttle_level (getBalancingAction (- 0.3) cid current_throttle now)
       = min (current_throttle - 0.3) 1.0"
  by (simp add: getBalancingAction_def Thresholds_defs std_min_eq_min Let_def)

theorem getBalancingAction_at_threshold_witness:
  "action (getBalancingAction (- 0.3) ''cpu0'' 0.4 0) = ALERT
   \<and> throttle_level (getBalancingAction (- 0.3) ''cpu0'' 0.4 0) = 0.1
   \<and> throttle_level (getBalancingAction 0.3 ''cpu0'' 0.9 0) = 1.0"
  using getBalancingAction_at_threshold [of "''cpu0''" "0.4" 0]
        getBalancingAction_at_threshold [of "''cpu0''" "0.9" 0]
  by simp


subsection \<open>The brake curve between the warning and the quarantine threshold\<close>

text \<open>
  C3, as the code has it. The brake curve has two segments between 5.0 and 10.0, which
  meet at \<open>IDI_CRITICAL\<close> = 7.0: for every debt in [5.0, 7.0) the throttle level is the
  linear interpolation from 0.7 at 5.0 down to 0.3 at 7.0, that is
  0.7 - 0.4 (debt - 5.0) / 2.0, and for every debt in [7.0, 10.0) it is the interpolation
  from 0.3 at 7.0 down to 0.1 at 10.0, that is 0.3 - 0.2 (debt - 7.0) / 3.0. The
  0.3-to-0.1 band has width 3.0, not zero.
\<close>

theorem calculateThrottleLevel_critical_bands:
  "(5.0 \<le> idi \<and> idi < 7.0 \<longrightarrow>
      calculateThrottleLevel idi = 0.7 - 0.4 * (idi - 5.0) / 2.0)
   \<and> (7.0 \<le> idi \<and> idi < 10.0 \<longrightarrow>
      calculateThrottleLevel idi = 0.3 - 0.2 * (idi - 7.0) / 3.0)
   \<and> IDI_QUARANTINE - IDI_CRITICAL = 3.0"
  by (simp add: calculateThrottleLevel_def Thresholds_defs Let_def)

theorem calculateThrottleLevel_critical_bands_witness:
  "calculateThrottleLevel 6 = 0.5 \<and> calculateThrottleLevel 8.5 = 0.2"
  using calculateThrottleLevel_critical_bands [of 6]
        calculateThrottleLevel_critical_bands [of "8.5"]
  by simp

text \<open>
  C3 as stated fails: at debt 6.0 the code returns 0.5, the single interpolation from 0.7
  at 5.0 to 0.3 at 10.0 gives 0.62; at debt 8.5 the code returns 0.2, a value inside the
  0.3-to-0.1 band, and the single interpolation gives 0.42.
\<close>

theorem calculateThrottleLevel_single_band_counterexample:
  "calculateThrottleLevel 6 = 0.5
   \<and> calculateThrottleLevel 6 \<noteq> 0.7 - 0.4 * (6 - 5.0) / 5.0
   \<and> calculateThrottleLevel 8.5 = 0.2
   \<and> calculateThrottleLevel 8.5 \<noteq> 0.7 - 0.4 * (8.5 - 5.0) / 5.0"
  by (simp add: calculateThrottleLevel_def Thresholds_defs Let_def)

subsection \<open>Predicting the debt score\<close>

text \<open>
  The rounding of the product is a rounding to binary64: the exponent is the position of
  the leading bit, and the rounded value is a nearest multiple of the spacing at that
  exponent (\<open>round_half_even\<close> takes the even one of two nearest).
\<close>

declare ilog2.simps [simp del]

lemma ilog2_bounds:
  "1 \<le> n \<Longrightarrow> 0 \<le> ilog2 n \<and> 2 ^ nat (ilog2 n) \<le> n \<and> n < 2 * 2 ^ nat (ilog2 n)"
proof (induction n rule: ilog2.induct)
  case (1 n)
  show ?case
  proof (cases "n \<le> 1")
    case True
    with "1.prems" have "n = 1" by simp
    then show ?thesis
      by (simp add: ilog2.simps)
  next
    case False
    then have m: "1 \<le> n div 2" by simp
    define k where "k = ilog2 (n div 2)"
    have ih: "0 \<le> k" "2 ^ nat k \<le> n div 2" "n div 2 < 2 * 2 ^ nat k"
      using "1.IH" [OF False m] by (simp_all add: k_def)
    have eq: "ilog2 n = 1 + k"
      using False by (subst ilog2.simps) (simp add: k_def)
    have nat_eq: "nat (1 + k) = Suc (nat k)"
      using ih(1) by simp
    have "2 * (n div 2) \<le> n" "n < 2 * (n div 2) + 2"
      by simp_all
    then show ?thesis
      using ih by (simp add: eq nat_eq)
  qed
qed

lemma pow2_pos: "0 < pow2 k"
  by (simp add: pow2_def)

lemma pow2_Suc: "pow2 (k + 1) = 2 * pow2 k"
proof (cases "0 \<le> k")
  case True
  then show ?thesis by (simp add: pow2_def nat_add_distrib)
next
  case False
  then have "nat (- k) = Suc (nat (- (k + 1)))" by simp
  then show ?thesis
    using False by (auto simp: pow2_def)
qed

lemma binary_exponent_bounds:
  assumes "x \<noteq> 0"
  shows "pow2 (binary_exponent x) \<le> \<bar>x\<bar> \<and> \<bar>x\<bar> < pow2 (binary_exponent x + 1)"
proof (cases "1 \<le> \<bar>x\<bar>")
  case True
  define n where "n = \<lfloor>\<bar>x\<bar>\<rfloor>"
  have n1: "1 \<le> n" using True by (simp add: n_def)
  define k where "k = ilog2 n"
  have b: "0 \<le> k" "2 ^ nat k \<le> n" "n < 2 * 2 ^ nat k"
    using ilog2_bounds [OF n1] by (simp_all add: k_def)
  have e: "binary_exponent x = k"
    using True by (simp add: binary_exponent_def k_def n_def)
  have fl: "real_of_int n \<le> \<bar>x\<bar>" "\<bar>x\<bar> < real_of_int n + 1"
    by (simp_all add: n_def)
  have "real_of_int (2 ^ nat k) \<le> real_of_int n"
    using b(2) by (simp only: of_int_le_iff)
  then have r1: "2 ^ nat k \<le> real_of_int n"
    by simp
  have "n + 1 \<le> 2 * 2 ^ nat k"
    using b(3) by simp
  then have "real_of_int (n + 1) \<le> real_of_int (2 * 2 ^ nat k)"
    by (simp only: of_int_le_iff)
  then have r2: "real_of_int n + 1 \<le> 2 * 2 ^ nat k"
    by simp
  have "2 ^ nat k \<le> \<bar>x\<bar>" "\<bar>x\<bar> < 2 * 2 ^ nat k"
    using fl r1 r2 by linarith+
  moreover have "pow2 k = 2 ^ nat k"
    using b(1) by (simp add: pow2_def)
  ultimately show ?thesis
    by (simp add: e pow2_Suc)
next
  case False
  define y where "y = 1 / \<bar>x\<bar>"
  have a: "0 < \<bar>x\<bar>" "\<bar>x\<bar> < 1" using assms False by simp_all
  have y1: "1 < y" using a by (simp add: y_def)
  define m where "m = \<lceil>y\<rceil> - 1"
  have m1: "1 \<le> m" using y1 by (simp add: m_def)
  define j where "j = ilog2 m"
  have b: "0 \<le> j" "2 ^ nat j \<le> m" "m < 2 * 2 ^ nat j"
    using ilog2_bounds [OF m1] by (simp_all add: j_def)
  have e: "binary_exponent x = - (j + 1)"
    using False by (simp add: binary_exponent_def j_def m_def y_def)
  have cl: "real_of_int m < y" "y \<le> real_of_int m + 1"
    by (simp_all add: m_def) linarith+
  have "real_of_int (2 ^ nat j) \<le> real_of_int m"
    using b(2) by (simp only: of_int_le_iff)
  then have r1: "2 ^ nat j \<le> real_of_int m"
    by simp
  have "m + 1 \<le> 2 * 2 ^ nat j"
    using b(3) by simp
  then have "real_of_int (m + 1) \<le> real_of_int (2 * 2 ^ nat j)"
    by (simp only: of_int_le_iff)
  then have r2: "real_of_int m + 1 \<le> 2 * 2 ^ nat j"
    by simp
  have y: "2 ^ nat j < y" "y \<le> 2 * 2 ^ nat j"
    using cl r1 r2 by linarith+
  have x: "\<bar>x\<bar> = 1 / y" using a by (simp add: y_def)
  have lo: "1 / (2 * 2 ^ nat j) \<le> \<bar>x\<bar>"
    unfolding x using y y1 by (intro divide_left_mono) simp_all
  have hi: "\<bar>x\<bar> < 1 / 2 ^ nat j"
    unfolding x using y y1 by (intro divide_strict_left_mono) simp_all
  have p1: "pow2 (- (j + 1)) = 1 / (2 * 2 ^ nat j)"
    using b(1) by (simp add: pow2_def nat_add_distrib)
  have p2: "pow2 (- (j + 1) + 1) = 1 / 2 ^ nat j"
    using b(1) by (auto simp: pow2_def)
  show ?thesis
    using lo hi by (simp only: e p1 p2)
qed

lemma round_half_even_nearest: "\<bar>real_of_int (round_half_even y) - y\<bar> \<le> 1 / 2"
  by (auto simp: round_half_even_def Let_def)

lemma round_to_double_nearest:
  "\<bar>round_to_double x - x\<bar> \<le> pow2 (max (binary_exponent x - 52) (- 1074)) / 2"
proof (cases "x = 0")
  case True
  then show ?thesis
    using pow2_pos [of "max (binary_exponent x - 52) (- 1074)"]
    by (simp add: round_to_double_def)
next
  case False
  define q where "q = max (binary_exponent x - 52) (- 1074)"
  define p where "p = pow2 q"
  have p: "0 < p" by (simp add: p_def pow2_pos)
  have "\<bar>real_of_int (round_half_even (x / p)) - x / p\<bar> * p \<le> (1 / 2) * p"
    using p round_half_even_nearest [of "x / p"] by (intro mult_right_mono) simp_all
  moreover have "\<bar>real_of_int (round_half_even (x / p)) - x / p\<bar> * p
      = \<bar>real_of_int (round_half_even (x / p)) * p - x\<bar>"
  proof -
    have "\<bar>real_of_int (round_half_even (x / p)) - x / p\<bar> * p
        = \<bar>(real_of_int (round_half_even (x / p)) - x / p) * p\<bar>"
      using p by (simp add: abs_mult)
    also have "(real_of_int (round_half_even (x / p)) - x / p) * p
        = real_of_int (round_half_even (x / p)) * p - x"
      using p by (simp add: field_simps)
    finally show ?thesis .
  qed
  ultimately show ?thesis
    using False by (simp add: round_to_double_def Let_def q_def [symmetric] p_def [symmetric])
qed

lemma pow2_powr: "pow2 k = 2 powr real_of_int k"
  by (simp add: pow2_def powr_int)

lemma pow2_add: "pow2 (a + b) = pow2 a * pow2 b"
  by (simp add: pow2_powr powr_add)

lemma pow2_less_iff: "pow2 a < pow2 b \<longleftrightarrow> a < b"
  by (simp add: pow2_powr)

lemma pow2_le_iff: "pow2 a \<le> pow2 b \<longleftrightarrow> a \<le> b"
  by (simp add: pow2_powr)

lemma pow2_nat: "0 \<le> k \<Longrightarrow> pow2 k = 2 ^ nat k"
  by (simp add: pow2_def)

lemma round_half_even_of_int: "round_half_even (real_of_int z) = z"
  by (simp add: round_half_even_def)

text \<open>
  Every finite \<^verbatim>\<open>double\<close>, an integer below \<open>2 ^ 53\<close> in magnitude times a power of
  two from \<open>2 ^ (- 1074)\<close> to \<open>2 ^ 971\<close>, is left as it is by \<open>to_double\<close>.
\<close>

lemma to_double_binary64:
  assumes m: "\<bar>m\<bar> < 2 ^ 53" and k: "- 1074 \<le> k" "k \<le> 971"
  shows "to_double (real_of_int m * pow2 k) = Some (real_of_int m * pow2 k)"
proof -
  define x where "x = real_of_int m * pow2 k"
  have "real_of_int \<bar>m\<bar> < real_of_int (2 ^ 53)"
    using m by (simp only: of_int_less_iff)
  then have m': "\<bar>real_of_int m\<bar> < 2 ^ 53"
    by simp
  have absx: "\<bar>x\<bar> = \<bar>real_of_int m\<bar> * pow2 k"
    using pow2_pos [of k] by (simp add: x_def abs_mult)
  have lt: "\<bar>x\<bar> < pow2 (k + 53)"
  proof -
    have "\<bar>real_of_int m\<bar> * pow2 k < 2 ^ 53 * pow2 k"
      using m' pow2_pos [of k] by (intro mult_strict_right_mono)
    also have "\<dots> = pow2 (k + 53)"
      by (simp add: pow2_add pow2_nat)
    finally show ?thesis by (simp add: absx)
  qed
  have fin: "\<bar>x\<bar> < 2 ^ 1024"
  proof -
    have "pow2 (k + 53) \<le> pow2 1024"
      using k by (simp only: pow2_le_iff)
    moreover have "pow2 1024 = 2 ^ 1024"
      by (simp add: pow2_nat del: power_numeral)
    ultimately show ?thesis
      using lt by (simp del: power_numeral)
  qed
  have same: "round_to_double x = x"
  proof (cases "x = 0")
    case True
    then show ?thesis by (simp add: round_to_double_def)
  next
    case False
    define q where "q = max (binary_exponent x - 52) (- 1074)"
    have "pow2 (binary_exponent x) \<le> \<bar>x\<bar>"
      using binary_exponent_bounds [OF False] by simp
    then have "pow2 (binary_exponent x) < pow2 (k + 53)"
      using lt by simp
    then have "binary_exponent x < k + 53"
      by (simp only: pow2_less_iff)
    then have qk: "q \<le> k"
      using k by (simp add: q_def)
    define d where "d = nat (k - q)"
    have "pow2 k = pow2 (k - q) * pow2 q"
      using pow2_add [of "k - q" q] by simp
    then have pk: "pow2 k = 2 ^ d * pow2 q"
      using qk by (simp add: pow2_nat d_def)
    have "x / pow2 q = real_of_int m * 2 ^ d"
      using pow2_pos [of q] by (simp add: x_def pk)
    then have "x / pow2 q = real_of_int (m * 2 ^ d)"
      by simp
    then have "real_of_int (round_half_even (x / pow2 q)) = real_of_int m * 2 ^ d"
      by (simp only: round_half_even_of_int) simp
    then have "real_of_int (round_half_even (x / pow2 q)) * pow2 q = x"
      by (simp add: x_def pk)
    then show ?thesis
      using False by (simp add: round_to_double_def Let_def q_def)
  qed
  show ?thesis
    unfolding to_double_def Let_def x_def [symmetric] using fin same
    by (simp del: power_numeral)
qed

lemma trunc_toward_zero_overflow:
  assumes "2 ^ 1024 \<le> \<bar>r\<bar>"
  shows "\<not> in_int_range (trunc_toward_zero r)"
proof -
  have "(2::real) ^ 32 \<le> 2 ^ 1024"
    by (rule power_increasing) simp_all
  then have big: "4294967296 \<le> \<bar>r\<bar>"
    using assms by simp
  show ?thesis
  proof (cases "r < 0")
    case True
    then have "r \<le> real_of_int (- 4294967296)"
      using big by simp
    then have "\<lceil>r\<rceil> \<le> - 4294967296"
      by (simp only: ceiling_le_iff)
    then show ?thesis
      using True by (simp add: trunc_toward_zero_def in_int_range_def INT_MIN_def)
  next
    case False
    then have "real_of_int 4294967296 \<le> r"
      using big by simp
    then have "4294967296 \<le> \<lfloor>r\<rfloor>"
      by (simp only: le_floor_iff)
    then show ?thesis
      using False by (simp add: trunc_toward_zero_def in_int_range_def INT_MAX_def)
  qed
qed

text \<open>
  C4, as the code has it. Whenever none of the three \<^verbatim>\<open>int\<close> computations leaves the
  range of \<^verbatim>\<open>int\<close> (the sum of the days, the conversion of the projected extra lines,
  the sum of the lines) and the rate is finite, \<^verbatim>\<open>predictIDI\<close> equals
  \<^verbatim>\<open>calculate\<close> at days + days_ahead and loc + t, where t is the \<^verbatim>\<open>double\<close> product
  daily_loc_rate * days_ahead (the exact product rounded to the nearest
  \<^verbatim>\<open>double\<close>) with its fractional part discarded: truncated towards zero, not
  rounded to the nearest integer. Otherwise the C++ has no defined result. The first
  equation is for any real passed as the rate, the second for a rate that is a
  \<^verbatim>\<open>double\<close>.
\<close>

theorem predictIDI_truncates:
  "predictIDI days loc deps days_ahead daily_loc_rate =
     (let rate = round_to_double daily_loc_rate;
          t = trunc_toward_zero (round_to_double (rate * real_of_int days_ahead))
      in if \<bar>rate\<bar> < 2 ^ 1024 \<and> in_int_range (days + days_ahead)
            \<and> in_int_range t \<and> in_int_range (loc + t)
         then Some (IDICalculator_calculate (days + days_ahead) (loc + t) deps)
         else None)
   \<and> (to_double daily_loc_rate = Some daily_loc_rate \<longrightarrow>
        predictIDI days loc deps days_ahead daily_loc_rate =
          (let t = trunc_toward_zero
                     (round_to_double (daily_loc_rate * real_of_int days_ahead))
           in if in_int_range (days + days_ahead) \<and> in_int_range t \<and> in_int_range (loc + t)
              then Some (IDICalculator_calculate (days + days_ahead) (loc + t) deps)
              else None))"
proof -
  let ?rate = "round_to_double daily_loc_rate"
  let ?p = "round_to_double (?rate * real_of_int days_ahead)"
  let ?t = "trunc_toward_zero ?p"
  have general: "predictIDI days loc deps days_ahead daily_loc_rate =
     (if \<bar>?rate\<bar> < 2 ^ 1024 \<and> in_int_range (days + days_ahead)
            \<and> in_int_range ?t \<and> in_int_range (loc + ?t)
      then Some (IDICalculator_calculate (days + days_ahead) (loc + ?t) deps)
      else None)"
  proof (cases "\<bar>?p\<bar> < 2 ^ 1024")
    case True
    then show ?thesis
      unfolding predictIDI_def int_add_def static_cast_int_def double_mul_def
        to_double_def Let_def
      by (simp del: power_numeral)
  next
    case False
    then have "2 ^ 1024 \<le> \<bar>?p\<bar>"
      by (simp only: not_less)
    then have "\<not> in_int_range ?t"
      by (rule trunc_toward_zero_overflow)
    then show ?thesis
      using False
      unfolding predictIDI_def int_add_def static_cast_int_def double_mul_def
        to_double_def Let_def
      by (simp del: power_numeral)
  qed
  show ?thesis
  proof (intro conjI impI)
    show "predictIDI days loc deps days_ahead daily_loc_rate =
     (let rate = round_to_double daily_loc_rate;
          t = trunc_toward_zero (round_to_double (rate * real_of_int days_ahead))
      in if \<bar>rate\<bar> < 2 ^ 1024 \<and> in_int_range (days + days_ahead)
            \<and> in_int_range t \<and> in_int_range (loc + t)
         then Some (IDICalculator_calculate (days + days_ahead) (loc + t) deps)
         else None)"
      unfolding Let_def by (rule general)
  next
    assume "to_double daily_loc_rate = Some daily_loc_rate"
    then have r: "?rate = daily_loc_rate" and fin: "\<bar>?rate\<bar> < 2 ^ 1024"
      unfolding to_double_def Let_def by (simp_all del: power_numeral split: if_splits)
    show "predictIDI days loc deps days_ahead daily_loc_rate =
          (let t = trunc_toward_zero
                     (round_to_double (daily_loc_rate * real_of_int days_ahead))
           in if in_int_range (days + days_ahead) \<and> in_int_range t \<and> in_int_range (loc + t)
              then Some (IDICalculator_calculate (days + days_ahead) (loc + t) deps)
              else None)"
      unfolding Let_def using general fin by (simp only: r if_True simp_thms)
  qed
qed

text \<open>
  Three runs. With 0.75 lines a day and 1 day ahead the product 0.75 is truncated to 0
  extra lines. With the \<^verbatim>\<open>double\<close> nearest to 0.7, which is
  6305039478318694 / 2 ^ 53, and 10 days ahead, the exact product lies below 7 and would
  be truncated to 6, but the \<^verbatim>\<open>double\<close> product is 7, so 7 lines are added. With the
  \<^verbatim>\<open>double\<close> nearest to 0.29 and 100 days ahead the \<^verbatim>\<open>double\<close> product lies
  below 29, so 28 lines are added.
\<close>

theorem predictIDI_truncates_witness:
  "predictIDI 1 1000 10 1 0.75 = Some 2
   \<and> to_double (6305039478318694 / 2 ^ 53) = Some (6305039478318694 / 2 ^ 53)
   \<and> predictIDI 1 993 10 10 (6305039478318694 / 2 ^ 53) = Some 11
   \<and> trunc_toward_zero (6305039478318694 / 2 ^ 53 * real_of_int 10) = 6
   \<and> predictIDI 1 993 10 10 0.7 = Some 11
   \<and> predictIDI 0 0 10 100 0.29 = Some 2.8"
  using predictIDI_truncates [of 1 1000 10 1 "0.75"]
        predictIDI_truncates [of 1 993 10 10 "6305039478318694 / 2 ^ 53"]
        predictIDI_truncates [of 1 993 10 10 "0.7"]
        predictIDI_truncates [of 0 0 10 100 "0.29"]
  by (simp only: Let_def)
     (simp add: in_int_range_def INT_MIN_def INT_MAX_def trunc_toward_zero_def
        to_double_def round_to_double_def binary_exponent_def round_half_even_def
        pow2_def ilog2.simps IDICalculator_calculate_def std_max_def Let_def)

text \<open>
  C4 as stated fails: with 1 day, 1000 lines, 10 dependencies, 1 day ahead and 0.75 lines
  a day the code returns 2 (0.75 is truncated to 0 extra lines), while the score with the
  extra lines rounded to the nearest integer (1 line) is 2.002.
\<close>

theorem predictIDI_round_counterexample:
  "predictIDI 1 1000 10 1 0.75 = Some 2
   \<and> IDICalculator_calculate (1 + 1) (1000 + round (0.75 * real_of_int 1 :: real)) 10 = 2.002"
  by (simp add: predictIDI_def int_add_def static_cast_int_def double_mul_def to_double_def
        in_int_range_def INT_MIN_def INT_MAX_def trunc_toward_zero_def
        round_to_double_def binary_exponent_def round_half_even_def pow2_def ilog2.simps
        IDICalculator_calculate_def std_max_def round_def Let_def)

subsection \<open>The history of the balancer\<close>

declare bound_history.simps [simp del]

lemma bound_history_eq_drop:
  "bound_history h = drop (length h - moving_avg_window * 2) h"
proof (induction h rule: bound_history.induct)
  case (1 h)
  show ?case
  proof (cases "length h > moving_avg_window * 2")
    case True
    then obtain x t where h: "h = x # t"
      by (cases h) auto
    have "bound_history h = bound_history (tl h)"
      using True by (subst bound_history.simps) simp
    also have "\<dots> = drop (length (tl h) - moving_avg_window * 2) (tl h)"
      using 1 True by simp
    also have "\<dots> = drop (length h - moving_avg_window * 2) h"
      using True by (simp add: h Suc_diff_le)
    finally show ?thesis .
  next
    case False
    then show ?thesis
      by (subst bound_history.simps) simp
  qed
qed

lemma foldl_add_sum_list:
  "foldl (\<lambda>s m. s + f m) a xs = a + sum_list (map f xs)" for a :: real
  by (induction xs arbitrary: a) simp_all

lemma sum_recent_eq:
  "sum_recent h = sum_list (map BalanceMetrics.imbalance (take moving_avg_window (rev h)))"
proof -
  have "sum_list (map BalanceMetrics.imbalance (take moving_avg_window (rev h)))
        = sum_list (rev (map BalanceMetrics.imbalance (drop (length h - moving_avg_window) h)))"
    by (simp add: take_rev rev_map)
  also have "\<dots> = sum_list (map BalanceMetrics.imbalance (drop (length h - moving_avg_window) h))"
    by (rule sum_list_rev)
  finally show ?thesis
    by (simp add: sum_recent_def foldl_add_sum_list)
qed

lemma getBalancingAction_imbalance:
  "MitigationResult.imbalance (getBalancingAction x cid thr now) = x"
  by (simp add: getBalancingAction_def Let_def)

lemma balance_history:
  "history (snd (balance b t thr n1 n2)) =
     drop (length (history b) + 1 - 20)
       (history b @
         [\<lparr>hw_capacity = calculateHardwareCapacity t,
           sw_demand = calculateSoftwareDemand b t,
           imbalance = calculateImbalance (calculateHardwareCapacity t)
                         (calculateSoftwareDemand b t),
           timestamp = n1\<rparr>])"
  by (simp add: balance_def Let_def bound_history_eq_drop moving_avg_window_def)

lemma balance_result:
  "fst (balance b t thr n1 n2) =
     getBalancingAction
       (if 10 \<le> length (history (snd (balance b t thr n1 n2)))
        then sum_list (map BalanceMetrics.imbalance
               (take 10 (rev (history (snd (balance b t thr n1 n2)))))) / 10
        else calculateImbalance (calculateHardwareCapacity t) (calculateSoftwareDemand b t))
       (TelemetryData.component_id t) thr n2"
  by (simp add: balance_def Let_def sum_recent_eq moving_avg_window_def)

text \<open>
  C8. After every call of \<^verbatim>\<open>balance\<close>, whatever the balancer held before, the history
  holds at most 20 entries; it is the history before the call with the new sample appended
  and the oldest entries dropped from the front. The imbalance the decision is made on
  (the one \<^verbatim>\<open>getBalancingAction\<close> receives and the result records) is the arithmetic
  mean of the imbalances of the 10 most recent entries when the history holds at least 10
  entries, and the imbalance of the current snapshot otherwise.
\<close>

theorem balance_history_bounded:
  "length (history (snd (balance b t thr now_sample now_result))) \<le> 20
   \<and> history (snd (balance b t thr now_sample now_result)) =
       drop (length (history b) + 1 - 20)
         (history b @
           [\<lparr>hw_capacity = calculateHardwareCapacity t,
             sw_demand = calculateSoftwareDemand b t,
             imbalance = calculateImbalance (calculateHardwareCapacity t)
                           (calculateSoftwareDemand b t),
             timestamp = now_sample\<rparr>])
   \<and> MitigationResult.imbalance (fst (balance b t thr now_sample now_result)) =
       (if 10 \<le> length (history (snd (balance b t thr now_sample now_result)))
        then sum_list (map BalanceMetrics.imbalance
               (take 10 (rev (history (snd (balance b t thr now_sample now_result)))))) / 10
        else calculateImbalance (calculateHardwareCapacity t) (calculateSoftwareDemand b t))
   \<and> fst (balance b t thr now_sample now_result) =
       getBalancingAction
         (MitigationResult.imbalance (fst (balance b t thr now_sample now_result)))
         (TelemetryData.component_id t) thr now_result"
proof -
  let ?r = "balance b t thr now_sample now_result"
  have h: "history (snd ?r) =
       drop (length (history b) + 1 - 20)
         (history b @
           [\<lparr>hw_capacity = calculateHardwareCapacity t,
             sw_demand = calculateSoftwareDemand b t,
             imbalance = calculateImbalance (calculateHardwareCapacity t)
                           (calculateSoftwareDemand b t),
             timestamp = now_sample\<rparr>])"
    by (rule balance_history)
  have len: "length (history (snd ?r)) \<le> 20"
    by (subst h) simp
  have imb: "MitigationResult.imbalance (fst ?r) =
       (if 10 \<le> length (history (snd ?r))
        then sum_list (map BalanceMetrics.imbalance (take 10 (rev (history (snd ?r))))) / 10
        else calculateImbalance (calculateHardwareCapacity t) (calculateSoftwareDemand b t))"
    by (subst balance_result) (rule getBalancingAction_imbalance)
  have res: "fst ?r = getBalancingAction (MitigationResult.imbalance (fst ?r))
         (TelemetryData.component_id t) thr now_result"
    by (subst imb) (rule balance_result)
  show ?thesis
    using len h imb res by blast
qed

text \<open>
  A balancer whose history already holds 20 entries, each of imbalance 0.5, meets the
  scenario's snapshot (imbalance -0.177): the history stays at 20 entries, the newest is
  the snapshot's, and the decision is made on the mean of the last ten,
  (9 * 0.5 - 0.177) / 10 = 0.4323.
\<close>

theorem balance_history_bounded_witness:
  "length (history (snd (balance
      \<lparr>history = replicate 20 \<lparr>hw_capacity = 80, sw_demand = 30, imbalance = 0.5, timestamp = 0\<rparr>,
       target_throughput = 1000\<rparr>
      \<lparr>TelemetryData.component_id = ''cpu0'', TelemetryData.timestamp = 7,
       cpu_usage = 90, memory_usage = 60, io_latency_ms = 50, network_latency_ms = 0,
       error_rate = 0.001, throughput = 1200, temperature = None,
       power_consumption = None\<rparr> 1 8 9))) = 20
   \<and> BalanceMetrics.imbalance (last (history (snd (balance
      \<lparr>history = replicate 20 \<lparr>hw_capacity = 80, sw_demand = 30, imbalance = 0.5, timestamp = 0\<rparr>,
       target_throughput = 1000\<rparr>
      \<lparr>TelemetryData.component_id = ''cpu0'', TelemetryData.timestamp = 7,
       cpu_usage = 90, memory_usage = 60, io_latency_ms = 50, network_latency_ms = 0,
       error_rate = 0.001, throughput = 1200, temperature = None,
       power_consumption = None\<rparr> 1 8 9)))) = - 0.177
   \<and> MitigationResult.imbalance (fst (balance
      \<lparr>history = replicate 20 \<lparr>hw_capacity = 80, sw_demand = 30, imbalance = 0.5, timestamp = 0\<rparr>,
       target_throughput = 1000\<rparr>
      \<lparr>TelemetryData.component_id = ''cpu0'', TelemetryData.timestamp = 7,
       cpu_usage = 90, memory_usage = 60, io_latency_ms = 50, network_latency_ms = 0,
       error_rate = 0.001, throughput = 1200, temperature = None,
       power_consumption = None\<rparr> 1 8 9)) = 0.4323"
  using balance_history_bounded [of
      "\<lparr>history = replicate 20 \<lparr>hw_capacity = 80, sw_demand = 30, imbalance = 0.5, timestamp = 0\<rparr>,
       target_throughput = 1000\<rparr>"
      "\<lparr>TelemetryData.component_id = ''cpu0'', TelemetryData.timestamp = 7,
       cpu_usage = 90, memory_usage = 60, io_latency_ms = 50, network_latency_ms = 0,
       error_rate = 0.001, throughput = 1200, temperature = None,
       power_consumption = None\<rparr>" 1 8 9]
  by (simp add: calculateHardwareCapacity_def calculateSoftwareDemand_def
        calculateImbalance_def Thresholds_defs std_min_def Let_def
        take_Suc_conv_app_nth rev_replicate eval_nat_numeral)


subsection \<open>The end-to-end scenario\<close>

text \<open>
  C6, as the code has it. For a snapshot with cpu_usage = 90, memory_usage = 60,
  throughput = 1200, io_latency_ms = 50, error_rate = 0.001 and no temperature, on a
  balancer with target throughput 1000 whose history holds fewer than 9 entries (a new
  balancer holds none), the hardware capacity is 40, the software demand is
  0.5 * 100 + 0.3 * 25 + 0.2 * 1 = 57.7 (the error stress is 0.001 * 1000 = 1), the
  imbalance is (40 - 57.7) / 100 = -0.177, which lies inside the band of 0.3, and the
  action is NONE with the throttle unchanged.
\<close>

theorem scenario_snapshot:
  "cpu_usage t = 90 \<and> memory_usage t = 60 \<and> throughput t = 1200 \<and> io_latency_ms t = 50
     \<and> error_rate t = 0.001 \<and> temperature t = None
     \<and> target_throughput b = 1000 \<and> length (history b) < 9
   \<longrightarrow> calculateHardwareCapacity t = 40
     \<and> calculateSoftwareDemand b t = 57.7
     \<and> calculateImbalance (calculateHardwareCapacity t) (calculateSoftwareDemand b t) = - 0.177
     \<and> MitigationResult.imbalance (fst (balance b t current_throttle now_sample now_result))
         = - 0.177
     \<and> \<bar>MitigationResult.imbalance (fst (balance b t current_throttle now_sample now_result))\<bar>
         < HW_SW_IMBALANCE_THRESHOLD
     \<and> action (fst (balance b t current_throttle now_sample now_result)) = NONE
     \<and> throttle_level (fst (balance b t current_throttle now_sample now_result))
         = current_throttle"
proof (intro impI)
  assume a: "cpu_usage t = 90 \<and> memory_usage t = 60 \<and> throughput t = 1200
     \<and> io_latency_ms t = 50 \<and> error_rate t = 0.001 \<and> temperature t = None
     \<and> target_throughput b = 1000 \<and> length (history b) < 9"
  have hw: "calculateHardwareCapacity t = 40"
    using a by (simp add: calculateHardwareCapacity_def Let_def)
  have sw: "calculateSoftwareDemand b t = 57.7"
    using a by (simp add: calculateSoftwareDemand_def Let_def std_min_def Thresholds_defs)
  have imb: "calculateImbalance (calculateHardwareCapacity t) (calculateSoftwareDemand b t)
      = - 0.177"
    by (simp add: hw sw calculateImbalance_def)
  have short: "\<not> 10 \<le> length (history (snd (balance b t current_throttle now_sample now_result)))"
    using a by (simp add: balance_history)
  have res: "fst (balance b t current_throttle now_sample now_result)
      = getBalancingAction (- 0.177) (TelemetryData.component_id t) current_throttle now_result"
    using short imb by (subst balance_result) simp
  show "calculateHardwareCapacity t = 40
     \<and> calculateSoftwareDemand b t = 57.7
     \<and> calculateImbalance (calculateHardwareCapacity t) (calculateSoftwareDemand b t) = - 0.177
     \<and> MitigationResult.imbalance (fst (balance b t current_throttle now_sample now_result))
         = - 0.177
     \<and> \<bar>MitigationResult.imbalance (fst (balance b t current_throttle now_sample now_result))\<bar>
         < HW_SW_IMBALANCE_THRESHOLD
     \<and> action (fst (balance b t current_throttle now_sample now_result)) = NONE
     \<and> throttle_level (fst (balance b t current_throttle now_sample now_result))
         = current_throttle"
    using hw sw imb
    by (simp add: res getBalancingAction_def Let_def HW_SW_IMBALANCE_THRESHOLD_def)
qed

theorem scenario_snapshot_witness:
  "calculateSoftwareDemand (HardwareSoftwareBalancer_new 1000)
      \<lparr>TelemetryData.component_id = ''cpu0'', TelemetryData.timestamp = 7,
       cpu_usage = 90, memory_usage = 60, io_latency_ms = 50, network_latency_ms = 0,
       error_rate = 0.001, throughput = 1200, temperature = None,
       power_consumption = None\<rparr> = 57.7
   \<and> action (fst (balance (HardwareSoftwareBalancer_new 1000)
      \<lparr>TelemetryData.component_id = ''cpu0'', TelemetryData.timestamp = 7,
       cpu_usage = 90, memory_usage = 60, io_latency_ms = 50, network_latency_ms = 0,
       error_rate = 0.001, throughput = 1200, temperature = None,
       power_consumption = None\<rparr> 1 8 9)) = NONE"
  using scenario_snapshot [of
      "\<lparr>TelemetryData.component_id = ''cpu0'', TelemetryData.timestamp = 7,
       cpu_usage = 90, memory_usage = 60, io_latency_ms = 50, network_latency_ms = 0,
       error_rate = 0.001, throughput = 1200, temperature = None,
       power_consumption = None\<rparr>" "HardwareSoftwareBalancer_new 1000" 1 8 9]
  by (simp add: HardwareSoftwareBalancer_new_def)

text \<open>
  C6 as stated fails: on the scenario's snapshot the software demand is not 62.52 and the
  imbalance the decision is made on is not -0.2252.
\<close>

theorem scenario_snapshot_counterexample:
  "calculateSoftwareDemand (HardwareSoftwareBalancer_new 1000)
      \<lparr>TelemetryData.component_id = ''cpu0'', TelemetryData.timestamp = 7,
       cpu_usage = 90, memory_usage = 60, io_latency_ms = 50, network_latency_ms = 0,
       error_rate = 0.001, throughput = 1200, temperature = None,
       power_consumption = None\<rparr> \<noteq> 62.52
   \<and> MitigationResult.imbalance (fst (balance (HardwareSoftwareBalancer_new 1000)
      \<lparr>TelemetryData.component_id = ''cpu0'', TelemetryData.timestamp = 7,
       cpu_usage = 90, memory_usage = 60, io_latency_ms = 50, network_latency_ms = 0,
       error_rate = 0.001, throughput = 1200, temperature = None,
       power_consumption = None\<rparr> 1 8 9)) \<noteq> - 0.2252"
  by (simp add: balance_result balance_history calculateHardwareCapacity_def
        calculateSoftwareDemand_def calculateImbalance_def getBalancingAction_imbalance
        HardwareSoftwareBalancer_new_def Thresholds_defs std_min_def Let_def)


subsection \<open>The PID controller\<close>

lemma std_clamp_eq_max_min:
  "lo \<le> hi \<Longrightarrow> std_clamp v lo hi = max lo (min hi v)"
  by (auto simp: std_clamp_def max_def min_def)

lemma calculate_integral:
  "integral (snd (PIDController_calculate c v)) =
     max (- 50) (min 50 (integral c + (target c - v)))"
  by (simp add: PIDController_calculate_def Let_def INTEGRAL_MIN_def INTEGRAL_MAX_def
        std_clamp_eq_max_min)

lemma calculate_target: "target (snd (PIDController_calculate c v)) = target c"
  by (simp add: PIDController_calculate_def Let_def)

text \<open>
  With a constant error that is not negative, the integral grows by the error at every
  call until it reaches 50, and stays there.
\<close>

lemma calculate_repeatedly_integral:
  "0 \<le> target c - v \<Longrightarrow> - 50 \<le> integral c \<Longrightarrow> integral c \<le> 50 \<Longrightarrow>
     integral (calculate_repeatedly n c v) = min 50 (integral c + real n * (target c - v))"
proof (induction n arbitrary: c)
  case 0
  then show ?case by simp
next
  case (Suc n)
  let ?c' = "snd (PIDController_calculate c v)"
  have i': "integral ?c' = min 50 (integral c + (target c - v))"
    using Suc.prems by (simp add: calculate_integral)
  have "integral (calculate_repeatedly n ?c' v)
          = min 50 (integral ?c' + real n * (target ?c' - v))"
    using Suc.prems by (intro Suc.IH) (simp_all add: calculate_target i')
  also have "\<dots> = min 50 (integral c + real (Suc n) * (target c - v))"
  proof -
    have "0 \<le> real n * (target c - v)"
      using Suc.prems by simp
    then show ?thesis
      by (simp add: i' calculate_target min_def algebra_simps)
  qed
  finally show ?case by simp
qed

text \<open>
  C7. For every current value and every controller state, \<^verbatim>\<open>calculate\<close> returns a value
  in [-0.3, 0.3], namely clamp((kp * error + ki * integral + kd * (error - previous_error))
  / 100, -0.3, 0.3) with error = target - current_value and integral the accumulated
  integral after this call; that integral is the old one plus the error, clamped to
  [-50, 50], and the error becomes the previous error. With a constant error that is
  positive, once the integral before the calls plus n times the error reaches 50 the
  integral after n calls is 50; with an error of 100 or more that holds after any number
  n > 0 of calls, from every state whose integral is in [-50, 50] (the constructor,
  \<^verbatim>\<open>reset\<close> and \<^verbatim>\<open>calculate\<close> leave no other).
\<close>

theorem PIDController_calculate_bounded:
  "- 0.3 \<le> fst (PIDController_calculate c current_value)
   \<and> fst (PIDController_calculate c current_value) \<le> 0.3
   \<and> fst (PIDController_calculate c current_value) =
       max (- 0.3) (min 0.3
         ((kp c * (target c - current_value)
           + ki c * integral (snd (PIDController_calculate c current_value))
           + kd c * ((target c - current_value) - previous_error c)) / 100))
   \<and> integral (snd (PIDController_calculate c current_value)) =
       max (- 50) (min 50 (integral c + (target c - current_value)))
   \<and> - 50 \<le> integral (snd (PIDController_calculate c current_value))
   \<and> integral (snd (PIDController_calculate c current_value)) \<le> 50
   \<and> previous_error (snd (PIDController_calculate c current_value)) = target c - current_value
   \<and> (0 \<le> target c - current_value \<and> - 50 \<le> integral c \<and> integral c \<le> 50
        \<and> 50 \<le> integral c + real n * (target c - current_value)
      \<longrightarrow> integral (calculate_repeatedly n c current_value) = 50)
   \<and> (0 < n \<and> 100 \<le> target c - current_value \<and> - 50 \<le> integral c \<and> integral c \<le> 50
      \<longrightarrow> integral (calculate_repeatedly n c current_value) = 50)"
proof -
  let ?r = "PIDController_calculate c current_value"
  let ?e = "target c - current_value"
  have out: "fst ?r = max (- 0.3) (min 0.3
         ((kp c * ?e + ki c * integral (snd ?r) + kd c * (?e - previous_error c)) / 100))"
    by (simp add: PIDController_calculate_def Let_def std_clamp_eq_max_min)
  have int: "integral (snd ?r) = max (- 50) (min 50 (integral c + ?e))"
    by (rule calculate_integral)
  have prev: "previous_error (snd ?r) = ?e"
    by (simp add: PIDController_calculate_def Let_def)
  have sat: "integral (calculate_repeatedly n c current_value) = 50"
    if "0 \<le> ?e" "- 50 \<le> integral c" "integral c \<le> 50" "50 \<le> integral c + real n * ?e"
    using that by (simp add: calculate_repeatedly_integral)
  have large: "integral (calculate_repeatedly n c current_value) = 50"
    if "0 < n" "100 \<le> ?e" "- 50 \<le> integral c" "integral c \<le> 50"
  proof -
    define p where "p = real n * ?e"
    have "1 * ?e \<le> real n * ?e"
      using that by (intro mult_right_mono) simp_all
    then have "?e \<le> p"
      by (simp add: p_def)
    then have "50 \<le> integral c + p"
      using that by linarith
    then have "50 \<le> integral c + real n * ?e"
      by (simp add: p_def)
    then show ?thesis
      using that by (intro sat) simp_all
  qed
  have b1: "- 0.3 \<le> fst ?r" by (subst out) simp
  have b2: "fst ?r \<le> 0.3" by (subst out) simp
  have b3: "- 50 \<le> integral (snd ?r)" by (subst int) simp
  have b4: "integral (snd ?r) \<le> 50" by (subst int) simp
  show ?thesis
    using out int prev sat large b1 b2 b3 b4 by blast
qed

text \<open>
  The controller of the default constructor, called 1000 times with the current value
  -1000 (an error of 1070): the integral ends at 50, and the first call returns 0.3.
\<close>

theorem PIDController_calculate_bounded_witness:
  "integral (calculate_repeatedly 1000 PIDController_default (- 1000)) = 50
   \<and> fst (PIDController_calculate PIDController_default (- 1000)) = 0.3"
  using PIDController_calculate_bounded [of PIDController_default "- 1000" 1000]
  by (simp add: PIDController_default_def PIDController_new_def)

subsection \<open>Restoring from quarantine\<close>

lemma duration_cast_hours_less_1:
  assumes "0 < tph"
  shows "duration_cast_hours tph d < 1 \<longleftrightarrow> d < tph"
proof (cases "d \<le> 0")
  case True
  have "0 \<le> \<bar>d\<bar> div tph"
    using assms by (simp add: pos_imp_zdiv_nonneg_iff)
  then have "sgn d * (\<bar>d\<bar> div tph) \<le> 0"
    using True by (simp add: mult_nonpos_nonneg sgn_if)
  then show ?thesis
    using True assms by (simp add: duration_cast_hours_def)
next
  case False
  then have pos: "d > 0" by simp
  then have cast: "duration_cast_hours tph d = d div tph"
    by (simp add: duration_cast_hours_def)
  have "0 < d div tph \<longleftrightarrow> tph \<le> d"
    using assms by (rule pos_imp_zdiv_pos_iff)
  then have "d div tph < 1 \<longleftrightarrow> d < tph"
    by linarith
  then show ?thesis
    by (simp add: cast)
qed

text \<open>
  C9. With a clock of any positive number of ticks in an hour, for every debt, health and
  quarantine time, \<^verbatim>\<open>canRestore\<close> is true if and only if the debt is below 5.0, the
  health is at least 70.0 and the time elapsed since quarantined_at is at least one hour.
  In particular, with any positive number of ticks in a minute, it is false 59 minutes
  after the quarantine even with debt 0 and health 100, and true exactly 60 minutes after
  it with debt 4.9 and health 70.
\<close>

theorem canRestore_iff:
  "(0 < ticks_per_hour \<longrightarrow>
      (canRestore ticks_per_hour idi health quarantined_at now \<longleftrightarrow>
         idi < 5.0 \<and> health \<ge> 70.0 \<and> now - quarantined_at \<ge> ticks_per_hour))
   \<and> (0 < ticks_per_minute \<longrightarrow>
      \<not> canRestore (60 * ticks_per_minute) 0 100 quarantined_at
          (quarantined_at + 59 * ticks_per_minute))
   \<and> (0 < ticks_per_minute \<longrightarrow>
      canRestore (60 * ticks_per_minute) 4.9 70 quarantined_at
          (quarantined_at + 60 * ticks_per_minute))"
  by (auto simp: canRestore_def Let_def duration_cast_hours_less_1 Thresholds_defs)

text \<open>A clock that ticks every nanosecond, and a quarantine at tick 1000.\<close>

theorem canRestore_iff_witness:
  "\<not> canRestore 3600000000000 0 100 1000 3540000001000
   \<and> canRestore 3600000000000 4.9 70 1000 3600000001000
   \<and> \<not> canRestore 3600000000000 5 70 1000 3600000001000
   \<and> \<not> canRestore 3600000000000 4.9 69.9 1000 3600000001000"
  using canRestore_iff [of 3600000000000 0 100 1000 3540000001000 60000000000]
        canRestore_iff [of 3600000000000 "4.9" 70 1000 3600000001000 60000000000]
        canRestore_iff [of 3600000000000 5 70 1000 3600000001000 60000000000]
        canRestore_iff [of 3600000000000 "4.9" "69.9" 1000 3600000001000 60000000000]
  by simp


subsection \<open>Continuity of the brake curve\<close>

text \<open>
  Around each inner breakpoint the curve is the minimum or the maximum of the two linear
  formulas that meet there.
\<close>

lemma calculateThrottleLevel_near_3:
  "x < 5 \<Longrightarrow> calculateThrottleLevel x = min 1 (1 - ((x - 3) / 2) * 0.3)"
  by (simp add: calculateThrottleLevel_def Thresholds_defs Let_def min_def)

lemma calculateThrottleLevel_near_5:
  "3 < x \<Longrightarrow> x < 7 \<Longrightarrow>
     calculateThrottleLevel x = min (1 - ((x - 3) / 2) * 0.3) (0.7 - ((x - 5) / 2) * 0.4)"
  by (simp add: calculateThrottleLevel_def Thresholds_defs Let_def min_def field_simps)

lemma calculateThrottleLevel_near_7:
  "5 < x \<Longrightarrow> x < 10 \<Longrightarrow>
     calculateThrottleLevel x = max (0.7 - ((x - 5) / 2) * 0.4) (0.3 - ((x - 7) / 3) * 0.2)"
  by (simp add: calculateThrottleLevel_def Thresholds_defs Let_def max_def field_simps)

lemma isCont_calculateThrottleLevel_3: "isCont calculateThrottleLevel 3"
proof -
  have "eventually (\<lambda>x. calculateThrottleLevel x = min 1 (1 - ((x - 3) / 2) * 0.3)) (nhds 3)"
    unfolding eventually_nhds
    by (intro exI [of _ "{..<5}"]) (simp add: calculateThrottleLevel_near_3)
  moreover have "isCont (\<lambda>x::real. min 1 (1 - ((x - 3) / 2) * 0.3)) 3"
    by (intro continuous_intros) simp_all
  ultimately show ?thesis
    by (simp add: isCont_cong)
qed

lemma isCont_calculateThrottleLevel_5: "isCont calculateThrottleLevel 5"
proof -
  have "eventually (\<lambda>x. calculateThrottleLevel x =
          min (1 - ((x - 3) / 2) * 0.3) (0.7 - ((x - 5) / 2) * 0.4)) (nhds 5)"
    unfolding eventually_nhds
    by (intro exI [of _ "{3<..<7}"]) (simp add: calculateThrottleLevel_near_5)
  moreover have "isCont (\<lambda>x::real. min (1 - ((x - 3) / 2) * 0.3) (0.7 - ((x - 5) / 2) * 0.4)) 5"
    by (intro continuous_intros) simp_all
  ultimately show ?thesis
    by (simp add: isCont_cong)
qed

lemma isCont_calculateThrottleLevel_7: "isCont calculateThrottleLevel 7"
proof -
  have "eventually (\<lambda>x. calculateThrottleLevel x =
          max (0.7 - ((x - 5) / 2) * 0.4) (0.3 - ((x - 7) / 3) * 0.2)) (nhds 7)"
    unfolding eventually_nhds
    by (intro exI [of _ "{5<..<10}"]) (simp add: calculateThrottleLevel_near_7)
  moreover have "isCont (\<lambda>x::real. max (0.7 - ((x - 5) / 2) * 0.4) (0.3 - ((x - 7) / 3) * 0.2)) 7"
    by (intro continuous_intros) simp_all
  ultimately show ?thesis
    by (simp add: isCont_cong)
qed

lemma calculateThrottleLevel_at_left_10:
  "(calculateThrottleLevel \<longlongrightarrow> 0.1) (at_left 10)"
proof -
  have ev: "eventually (\<lambda>x. 0.3 - ((x - 7) / 3) * 0.2 = calculateThrottleLevel x) (at_left 10)"
    unfolding eventually_at_left_field
    by (intro exI [of _ 7]) (simp add: calculateThrottleLevel_def Thresholds_defs Let_def)
  have "((\<lambda>x::real. 0.3 - ((x - 7) / 3) * 0.2) \<longlongrightarrow> 0.3 - ((10 - 7) / 3) * 0.2) (at_left 10)"
    by (intro tendsto_intros) simp_all
  then have "((\<lambda>x::real. 0.3 - ((x - 7) / 3) * 0.2) \<longlongrightarrow> 0.1) (at_left 10)"
    by simp
  then show ?thesis
    using ev by (rule Lim_transform_eventually)
qed

lemma not_isCont_calculateThrottleLevel_10: "\<not> isCont calculateThrottleLevel 10"
proof
  assume "isCont calculateThrottleLevel 10"
  then have "(calculateThrottleLevel \<longlongrightarrow> calculateThrottleLevel 10) (at_left 10)"
    by (simp add: isCont_def filterlim_at_split)
  then have "(calculateThrottleLevel \<longlongrightarrow> 0) (at_left 10)"
    by (simp add: calculateThrottleLevel_def Thresholds_defs)
  then have "(0::real) = 0.1"
    using calculateThrottleLevel_at_left_10 by (intro tendsto_unique) simp_all
  then show False by simp
qed

text \<open>
  C2, as the code has it. The breakpoints of the brake curve are 3.0, 5.0, 7.0 and the
  quarantine threshold 10.0. The curve is continuous at 3.0, 5.0 and 7.0, where its value
  (1.0, 0.7 and 0.3) is the limit of the linear formulas of both adjacent segments. Every
  debt at or above the quarantine threshold maps to 0.0, but the curve is not continuous
  there: the formula of the adjacent segment tends to 0.1 as the debt approaches 10.0
  from below.
\<close>

theorem calculateThrottleLevel_breakpoints:
  "isCont calculateThrottleLevel 3 \<and> calculateThrottleLevel 3 = 1.0
   \<and> isCont calculateThrottleLevel 5 \<and> calculateThrottleLevel 5 = 0.7
   \<and> isCont calculateThrottleLevel 7 \<and> calculateThrottleLevel 7 = 0.3
   \<and> (calculateThrottleLevel \<longlongrightarrow> 0.1) (at_left 10)
   \<and> (\<forall>idi\<ge>10. calculateThrottleLevel idi = 0.0)"
proof -
  have "calculateThrottleLevel 3 = 1.0" "calculateThrottleLevel 5 = 0.7"
       "calculateThrottleLevel 7 = 0.3" "\<forall>idi\<ge>10. calculateThrottleLevel idi = 0.0"
    by (simp_all add: calculateThrottleLevel_def Thresholds_defs Let_def)
  then show ?thesis
    using isCont_calculateThrottleLevel_3 isCont_calculateThrottleLevel_5
      isCont_calculateThrottleLevel_7 calculateThrottleLevel_at_left_10
    by blast
qed

theorem calculateThrottleLevel_breakpoints_witness:
  "calculateThrottleLevel 12 = 0 \<and> isCont calculateThrottleLevel 7"
  using calculateThrottleLevel_breakpoints by simp

text \<open>
  C2 as stated fails at the quarantine threshold: the value at 10.0 is 0.0, while just
  below (at 9.7) the curve is still at 0.12 and its limit from below is 0.1, so the curve
  is not continuous at 10.0.
\<close>

theorem calculateThrottleLevel_jump_counterexample:
  "calculateThrottleLevel 10 = 0
   \<and> calculateThrottleLevel 9.7 = 0.12
   \<and> (calculateThrottleLevel \<longlongrightarrow> 0.1) (at_left 10)
   \<and> \<not> isCont calculateThrottleLevel 10"
proof -
  have "calculateThrottleLevel 10 = 0" "calculateThrottleLevel 9.7 = 0.12"
    by (simp_all add: calculateThrottleLevel_def Thresholds_defs Let_def)
  then show ?thesis
    using calculateThrottleLevel_at_left_10 not_isCont_calculateThrottleLevel_10
    by blast
qed

end
